theory Spec2Isabelle
  imports Main "HOL-Library.Word"
begin

unbundle bit_operations_syntax

section \<open>Kernel types\<close>

text \<open>
  The program is a set of FreeRTOS demos: the priority updater of main.c, and the
  two-task scheduler, the fault-tolerant pair and the watchdog supervisor of
  main_blinky.c. Line numbers are those of the source file, which holds main.c followed by
  main_blinky.c.

  The kernel headers (FreeRTOS.h, task.h) are not part of the sources. The tick counter
  \<open>TickType_t\<close> and the priority type \<open>UBaseType_t\<close> are unsigned machine words, and
  \<open>BaseType_t\<close> holds the truth values \<open>pdTRUE\<close> (1) and \<open>pdFALSE\<close> (0); all three are
  taken at 32 bits, the width of the counters and heartbeat masks the sources declare
  themselves (\<open>uint32_t\<close>).
\<close>

type_synonym TickType_t = "32 word"
type_synonym UBaseType_t = "32 word"
type_synonym BaseType_t = "32 word"

definition pdFALSE :: BaseType_t where
  "pdFALSE = 0"

definition pdTRUE :: BaseType_t where
  "pdTRUE = 1"

section \<open>The three-task priority updater (main.c)\<close>

text \<open>
  The globals \<open>deadline1\<close>, \<open>deadline2\<close>, \<open>deadline3\<close> are plain (non-const, externally
  linked) variables that \<open>updatePriorities\<close> reads on every call; they are initialised
  to 500, 1000 and 1500 and no statement of the sources writes them.
\<close>

record edf_globals =
  deadline1 :: TickType_t
  deadline2 :: TickType_t
  deadline3 :: TickType_t

definition initial_deadlines :: edf_globals where
  "initial_deadlines = \<lparr>deadline1 = 500, deadline2 = 1000, deadline3 = 1500\<rparr>"

text \<open>The three handle variables \<open>task1Handle\<close>, \<open>task2Handle\<close>, \<open>task3Handle\<close>.\<close>

datatype task_handle = task1Handle | task2Handle | task3Handle

text \<open>Lines 33 to 35: the remaining time of each task, clamped at the deadline.\<close>

definition remaining1 :: "edf_globals \<Rightarrow> TickType_t \<Rightarrow> TickType_t" where
  "remaining1 g currentTick =
     (if deadline1 g > currentTick then deadline1 g - currentTick else 0)"

definition remaining2 :: "edf_globals \<Rightarrow> TickType_t \<Rightarrow> TickType_t" where
  "remaining2 g currentTick =
     (if deadline2 g > currentTick then deadline2 g - currentTick else 0)"

definition remaining3 :: "edf_globals \<Rightarrow> TickType_t \<Rightarrow> TickType_t" where
  "remaining3 g currentTick =
     (if deadline3 g > currentTick then deadline3 g - currentTick else 0)"

text \<open>
  Lines 37 to 51. The result is the sequence of \<open>vTaskPrioritySet\<close> calls the function
  issues, in program order; \<open>currentTick\<close> is what \<open>xTaskGetTickCount\<close> returned.
\<close>

definition updatePriorities ::
  "edf_globals \<Rightarrow> TickType_t \<Rightarrow> (task_handle \<times> UBaseType_t) list" where
  "updatePriorities g currentTick =
     (if remaining1 g currentTick \<le> remaining2 g currentTick
         \<and> remaining1 g currentTick \<le> remaining3 g currentTick
      then [(task1Handle, 3), (task2Handle, 2), (task3Handle, 1)]
      else if remaining2 g currentTick \<le> remaining1 g currentTick
         \<and> remaining2 g currentTick \<le> remaining3 g currentTick
      then [(task1Handle, 1), (task2Handle, 3), (task3Handle, 2)]
      else [(task1Handle, 1), (task2Handle, 2), (task3Handle, 3)])"

text \<open>
  \<open>vTaskPrioritySet\<close> overwrites the priority the kernel holds for a task; a sequence
  of calls is applied from left to right. Every task is created at priority 1 (lines 84
  to 86).
\<close>

definition vTaskPrioritySet ::
  "(task_handle \<Rightarrow> UBaseType_t) \<Rightarrow> task_handle \<times> UBaseType_t \<Rightarrow> task_handle \<Rightarrow> UBaseType_t" where
  "vTaskPrioritySet prio call = prio (fst call := snd call)"

definition created_priorities :: "task_handle \<Rightarrow> UBaseType_t" where
  "created_priorities h = 1"

definition priority_after :: "edf_globals \<Rightarrow> TickType_t \<Rightarrow> task_handle \<Rightarrow> UBaseType_t" where
  "priority_after g currentTick =
     foldl vTaskPrioritySet created_priorities (updatePriorities g currentTick)"

definition remaining_of :: "edf_globals \<Rightarrow> TickType_t \<Rightarrow> task_handle \<Rightarrow> TickType_t" where
  "remaining_of g currentTick h =
     (case h of task1Handle \<Rightarrow> remaining1 g currentTick
              | task2Handle \<Rightarrow> remaining2 g currentTick
              | task3Handle \<Rightarrow> remaining3 g currentTick)"

definition deadline_of :: "edf_globals \<Rightarrow> task_handle \<Rightarrow> TickType_t" where
  "deadline_of g h =
     (case h of task1Handle \<Rightarrow> deadline1 g
              | task2Handle \<Rightarrow> deadline2 g
              | task3Handle \<Rightarrow> deadline3 g)"

text \<open>The order in which the tasks are registered (lines 84 to 86).\<close>

definition registration_index :: "task_handle \<Rightarrow> nat" where
  "registration_index h = (case h of task1Handle \<Rightarrow> 1 | task2Handle \<Rightarrow> 2 | task3Handle \<Rightarrow> 3)"

section \<open>The two-task deadline scheduler (main_blinky.c)\<close>

text \<open>
  \<open>EDFTask\<close> is the struct of lines 192 to 197; the field names carry a prefix where
  another struct of the file uses the same name. \<open>edfTasks\<close> is an array of two records.
\<close>

record EDFTask =
  edf_handle :: nat
  edf_period :: TickType_t
  next_deadline :: TickType_t
  edf_name :: string

text \<open>
  Lines 225 to 236, one pass of the scheduler's loop. With the bounds \<open>i < 1\<close> and
  \<open>i + 1 \<le> j < 2\<close> the nested loops compare the pair \<open>(0, 1)\<close> once and swap the two
  records when the second deadline is strictly smaller; the second loop then writes
  priority \<open>3 - i\<close> to the task in slot \<open>i\<close>.
\<close>

definition vEDF_Scheduler_pass ::
  "EDFTask \<times> EDFTask \<Rightarrow> (EDFTask \<times> EDFTask) \<times> (nat \<times> UBaseType_t) list" where
  "vEDF_Scheduler_pass edfTasks =
     (let reordered =
            (if next_deadline (snd edfTasks) < next_deadline (fst edfTasks)
             then (snd edfTasks, fst edfTasks) else edfTasks)
      in (reordered,
          [(edf_handle (fst reordered), 3 - 0), (edf_handle (snd reordered), 3 - 1)]))"

section \<open>The fault-tolerant pair (main_blinky.c)\<close>

text \<open>
  \<open>FaultTolerantTask\<close> is the struct of lines 262 to 273. The two task handles and the
  name are left out: no decision of the code reads them. \<open>period\<close> is in ticks and
  \<open>deadline\<close> in milliseconds, as line 380 says.
\<close>

record FaultTolerantTask =
  period :: TickType_t
  deadline :: TickType_t
  primarySuccess :: BaseType_t
  successCount :: "32 word"
  backupActivations :: "32 word"
  deadlineMisses :: "32 word"

text \<open>
  What a task does to the outside is recorded as a list of events in program order: the
  writes and reads of the shared flag, the blocking kernel calls with their argument,
  the counter increments and the log lines.
\<close>

datatype ft_log =
    PrimaryStarted
  | PrimaryOverrun
  | PrimarySuccess
  | PrimaryMissedDeadline TickType_t
  | PrimaryLateSuccess TickType_t
  | BackupActivated
  | BackupSkipping

datatype ft_event =
    WritePrimarySuccess BaseType_t
  | ReadPrimarySuccess BaseType_t
  | TaskDelayUntil TickType_t
  | TaskDelay TickType_t
  | GetTickCount TickType_t
  | IncrementSuccessCount
  | IncrementBackupActivations
  | IncrementDeadlineMisses
  | Print ft_log

text \<open>
  One pass of the loop of \<open>vFT_Primary\<close> (lines 280 to 320), in three parts. The macro
  \<open>pdMS_TO_TICKS\<close> is a parameter, since its definition and the tick rate are in headers
  that are not part of the sources. \<open>rnd\<close> is the value \<open>rand\<close> returns and \<open>now\<close> the
  value \<open>xTaskGetTickCount\<close> returns on line 304.

  Lines 282 to 285: the flag is cleared, then \<open>vTaskDelayUntil\<close> blocks until the next
  release; the kernel adds the increment to the variable \<open>xNextWake\<close> it is given by
  reference, so that afterwards \<open>xNextWake\<close> is the wake time just passed.
\<close>

definition vFT_Primary_release ::
  "TickType_t \<Rightarrow> FaultTolerantTask \<Rightarrow> (TickType_t \<times> FaultTolerantTask) \<times> ft_event list" where
  "vFT_Primary_release xNextWake task =
     ((xNextWake + period task, task\<lparr>primarySuccess := pdFALSE\<rparr>),
      [WritePrimarySuccess pdFALSE, TaskDelayUntil (period task), Print PrimaryStarted])"

text \<open>Lines 288 to 300: the simulated workload, an overrun when \<open>rand() % 10 == 0\<close>.\<close>

definition vFT_Primary_workload ::
  "(TickType_t \<Rightarrow> TickType_t) \<Rightarrow> nat \<Rightarrow> FaultTolerantTask \<Rightarrow> FaultTolerantTask \<times> ft_event list" where
  "vFT_Primary_workload pdMS_TO_TICKS rnd task =
     (if rnd mod 10 = 0
      then (task\<lparr>primarySuccess := pdFALSE\<rparr>,
            [TaskDelay (pdMS_TO_TICKS ((deadline task * 2) div 1)), Print PrimaryOverrun,
             WritePrimarySuccess pdFALSE])
      else (task\<lparr>primarySuccess := pdTRUE, successCount := successCount task + 1\<rparr>,
            [TaskDelay (pdMS_TO_TICKS (period task div 2)), WritePrimarySuccess pdTRUE,
             IncrementSuccessCount, Print PrimarySuccess]))"

text \<open>Lines 304 to 317: the deadline check; \<open>xNextWake\<close> is the value after the release.\<close>

definition vFT_Primary_deadline_check ::
  "TickType_t \<Rightarrow> TickType_t \<Rightarrow> FaultTolerantTask \<Rightarrow> FaultTolerantTask \<times> ft_event list" where
  "vFT_Primary_deadline_check xNextWake now task =
     (if now > xNextWake - period task + deadline task
      then (if primarySuccess task = 0
            then (task\<lparr>deadlineMisses := deadlineMisses task + 1\<rparr>,
                  [GetTickCount now, ReadPrimarySuccess (primarySuccess task),
                   IncrementDeadlineMisses, Print (PrimaryMissedDeadline now)])
            else (task\<lparr>deadlineMisses := deadlineMisses task + 1\<rparr>,
                  [GetTickCount now, ReadPrimarySuccess (primarySuccess task),
                   IncrementDeadlineMisses, Print (PrimaryLateSuccess now)]))
      else (task, [GetTickCount now]))"

definition vFT_Primary_iteration ::
  "(TickType_t \<Rightarrow> TickType_t) \<Rightarrow> nat \<Rightarrow> TickType_t \<Rightarrow> TickType_t \<Rightarrow> FaultTolerantTask
     \<Rightarrow> (TickType_t \<times> FaultTolerantTask) \<times> ft_event list" where
  "vFT_Primary_iteration pdMS_TO_TICKS rnd now xNextWake task =
     (case vFT_Primary_release xNextWake task of ((xNextWake1, task1), ev1) \<Rightarrow>
      case vFT_Primary_workload pdMS_TO_TICKS rnd task1 of (task2, ev2) \<Rightarrow>
      case vFT_Primary_deadline_check xNextWake1 now task2 of (task3, ev3) \<Rightarrow>
        ((xNextWake1, task3), ev1 @ ev2 @ ev3))"

text \<open>The loop itself, for a list of inputs \<open>(rnd, now)\<close>, one per pass.\<close>

fun vFT_Primary_run ::
  "(TickType_t \<Rightarrow> TickType_t) \<Rightarrow> (nat \<times> TickType_t) list \<Rightarrow> TickType_t \<Rightarrow> FaultTolerantTask
     \<Rightarrow> (TickType_t \<times> FaultTolerantTask) \<times> ft_event list" where
  "vFT_Primary_run pdMS_TO_TICKS [] xNextWake task = ((xNextWake, task), [])"
| "vFT_Primary_run pdMS_TO_TICKS (input # inputs) xNextWake task =
     (case vFT_Primary_iteration pdMS_TO_TICKS (fst input) (snd input) xNextWake task of
        ((xNextWake1, task1), ev) \<Rightarrow>
          (case vFT_Primary_run pdMS_TO_TICKS inputs xNextWake1 task1 of
             (s, evs) \<Rightarrow> (s, ev @ evs)))"

text \<open>
  One pass of the loop of \<open>vFT_Backup\<close> (lines 325 to 341); \<open>task\<close> is the shared record
  as it stands when the Backup reads the flag on line 330.
\<close>

definition vFT_Backup_iteration ::
  "(TickType_t \<Rightarrow> TickType_t) \<Rightarrow> FaultTolerantTask \<Rightarrow> FaultTolerantTask \<times> ft_event list" where
  "vFT_Backup_iteration pdMS_TO_TICKS task =
     (if primarySuccess task = 0
      then (task\<lparr>backupActivations := backupActivations task + 1\<rparr>,
            [TaskDelay (pdMS_TO_TICKS (deadline task)), ReadPrimarySuccess (primarySuccess task),
             IncrementBackupActivations, Print BackupActivated,
             TaskDelay (pdMS_TO_TICKS (period task div 4))])
      else (task,
            [TaskDelay (pdMS_TO_TICKS (deadline task)), ReadPrimarySuccess (primarySuccess task),
             Print BackupSkipping]))"

text \<open>
  The two jobs \<open>main_fault_tolerant_demo\<close> configures (lines 364 to 380). \<open>ms_is_tick\<close>
  is \<open>pdMS_TO_TICKS\<close> at one tick per millisecond, the rate at which the tick counts the
  sources log as milliseconds are milliseconds.
\<close>

definition ms_is_tick :: "TickType_t \<Rightarrow> TickType_t" where
  "ms_is_tick xTimeInMs = xTimeInMs"

definition main_fault_tolerant_demo ::
  "(TickType_t \<Rightarrow> TickType_t) \<Rightarrow> FaultTolerantTask list" where
  "main_fault_tolerant_demo pdMS_TO_TICKS =
     [\<lparr>period = pdMS_TO_TICKS 500, deadline = 800, primarySuccess = pdTRUE,
        successCount = 0, backupActivations = 0, deadlineMisses = 0\<rparr>,
      \<lparr>period = pdMS_TO_TICKS 700, deadline = 1000, primarySuccess = pdTRUE,
        successCount = 0, backupActivations = 0, deadlineMisses = 0\<rparr>]"

definition JobA :: FaultTolerantTask where
  "JobA = main_fault_tolerant_demo ms_is_tick ! 0"

definition JobB :: FaultTolerantTask where
  "JobB = main_fault_tolerant_demo ms_is_tick ! 1"

text \<open>
  The value line 305 compares the completion time with: the comment there calls
  \<open>xNextWake - period\<close> the cycle start.
\<close>

definition cycle_start :: "TickType_t \<Rightarrow> FaultTolerantTask \<Rightarrow> TickType_t" where
  "cycle_start xNextWake task = xNextWake - period task"

definition deadline_threshold :: "TickType_t \<Rightarrow> FaultTolerantTask \<Rightarrow> TickType_t" where
  "deadline_threshold xNextWake task = cycle_start xNextWake task + deadline task"

text \<open>Observations on event lists.\<close>

fun is_delay :: "ft_event \<Rightarrow> bool" where
  "is_delay (TaskDelay n) = True"
| "is_delay e = False"

fun is_outcome_write :: "ft_event \<Rightarrow> bool" where
  "is_outcome_write (WritePrimarySuccess v) = True"
| "is_outcome_write e = False"

fun is_outcome_read :: "ft_event \<Rightarrow> bool" where
  "is_outcome_read (ReadPrimarySuccess v) = True"
| "is_outcome_read e = False"

definition after_read :: "ft_event list \<Rightarrow> ft_event list" where
  "after_read evs = tl (dropWhile (\<lambda>e. \<not> is_outcome_read e) evs)"

definition before_read :: "ft_event list \<Rightarrow> ft_event list" where
  "before_read evs = takeWhile (\<lambda>e. \<not> is_outcome_read e) evs"

text \<open>
  The value of the flag at each point where the task blocks, given its value \<open>v\<close> before
  the first event: these are the only points at which a task of lower priority runs.
\<close>

fun outcome_when_blocked :: "BaseType_t \<Rightarrow> ft_event list \<Rightarrow> BaseType_t list" where
  "outcome_when_blocked v [] = []"
| "outcome_when_blocked v (WritePrimarySuccess w # evs) = outcome_when_blocked w evs"
| "outcome_when_blocked v (TaskDelay n # evs) = v # outcome_when_blocked v evs"
| "outcome_when_blocked v (TaskDelayUntil n # evs) = v # outcome_when_blocked v evs"
| "outcome_when_blocked v (e # evs) = outcome_when_blocked v evs"

fun last_outcome :: "BaseType_t \<Rightarrow> ft_event list \<Rightarrow> BaseType_t" where
  "last_outcome v [] = v"
| "last_outcome v (WritePrimarySuccess w # evs) = last_outcome w evs"
| "last_outcome v (e # evs) = last_outcome v evs"

text \<open>
  Time lines. \<open>vTaskDelay n\<close> blocks the caller for \<open>n\<close> ticks and the other statements
  take no tick; time is counted in ticks since the start, without wrap-around. The
  Backup's read in each pass of its loop then happens at the times
  \<open>vFT_Backup_check_times\<close> lists, where \<open>seen\<close> gives the flag value each read finds and
  \<open>t\<close> is the time the loop is entered. \<open>vTaskDelayUntil\<close> releases the Primary one period
  after the previous release, the first time one period after \<open>tP\<close>.
\<close>

fun blocked_ticks :: "ft_event \<Rightarrow> nat" where
  "blocked_ticks (TaskDelay n) = unat n"
| "blocked_ticks e = 0"

fun vFT_Backup_check_times ::
  "(TickType_t \<Rightarrow> TickType_t) \<Rightarrow> FaultTolerantTask \<Rightarrow> nat \<Rightarrow> BaseType_t list \<Rightarrow> nat list" where
  "vFT_Backup_check_times pdMS_TO_TICKS task t [] = []"
| "vFT_Backup_check_times pdMS_TO_TICKS task t (seen # rest) =
     (t + sum_list (map blocked_ticks
            (before_read (snd (vFT_Backup_iteration pdMS_TO_TICKS (task\<lparr>primarySuccess := seen\<rparr>))))))
     # vFT_Backup_check_times pdMS_TO_TICKS task
         (t + sum_list (map blocked_ticks
            (snd (vFT_Backup_iteration pdMS_TO_TICKS (task\<lparr>primarySuccess := seen\<rparr>)))))
         rest"

definition primary_release_time :: "FaultTolerantTask \<Rightarrow> nat \<Rightarrow> nat \<Rightarrow> nat" where
  "primary_release_time task tP k = tP + k * unat (period task)"

text \<open>The number of Backup reads that fall into the Primary's period number \<open>k\<close>.\<close>

definition reads_in_period ::
  "(TickType_t \<Rightarrow> TickType_t) \<Rightarrow> FaultTolerantTask \<Rightarrow> nat \<Rightarrow> nat \<Rightarrow> BaseType_t list \<Rightarrow> nat
     \<Rightarrow> nat" where
  "reads_in_period pdMS_TO_TICKS task tP tB seen k =
     length (filter (\<lambda>c. primary_release_time task tP k \<le> c \<and> c < primary_release_time task tP (Suc k))
       (vFT_Backup_check_times pdMS_TO_TICKS task tB seen))"

section \<open>The watchdog supervisor (main_blinky.c)\<close>

text \<open>
  A task handle is \<open>NULL\<close> (\<open>None\<close>) or names a task. \<open>worker\<close> names the two worker
  slots: the task name together with the handle variable (\<open>"Worker1"\<close> with \<open>xWorker1\<close>,
  \<open>"Worker2"\<close> with \<open>xWorker2\<close>). An \<open>XTaskCreate\<close> event carries the slot, the
  \<open>pvParameters\<close> argument (the heartbeat bit) and the priority; a \<open>VTaskDelete\<close> event
  the slot and the handle that is deleted.
\<close>

type_synonym TaskHandle_t = "nat option"

datatype worker = Worker1 | Worker2

datatype wd_event =
    XTaskCreate worker "32 word" UBaseType_t
  | VTaskDelete worker nat
  | PrintRestarting worker "32 word"

text \<open>The locals \<open>ulMissed1\<close>, \<open>ulMissed2\<close> of the supervisor and the two handle globals.\<close>

record supervisor_state =
  ulMissed1 :: "32 word"
  ulMissed2 :: "32 word"
  xWorker1 :: TaskHandle_t
  xWorker2 :: TaskHandle_t

text \<open>
  What the kernel hands back in one collection window: the result and the bits of
  \<open>xTaskNotifyWait\<close>, and the handle \<open>xTaskCreate\<close> stores through its last argument if the
  window ends in a restart (\<open>None\<close>: the creation fails and the variable keeps its value).
\<close>

record window =
  xGot :: BaseType_t
  ulReceivedBits :: "32 word"
  created1 :: TaskHandle_t
  created2 :: TaskHandle_t

text \<open>Lines 477 and 478: the two workers as \<open>main_watchdog_demo\<close> creates them.\<close>

definition main_watchdog_demo :: "wd_event list" where
  "main_watchdog_demo =
     [XTaskCreate Worker1 (push_bit 0 1) 2, XTaskCreate Worker2 (push_bit 1 1) 2]"

text \<open>Line 419: the supervisor starts with both counters at 0.\<close>

definition supervisor_entry :: "TaskHandle_t \<Rightarrow> TaskHandle_t \<Rightarrow> supervisor_state" where
  "supervisor_entry h1 h2 = \<lparr>ulMissed1 = 0, ulMissed2 = 0, xWorker1 = h1, xWorker2 = h2\<rparr>"

definition store_handle :: "TaskHandle_t \<Rightarrow> TaskHandle_t \<Rightarrow> TaskHandle_t" where
  "store_handle created old = (case created of None \<Rightarrow> old | Some h \<Rightarrow> Some h)"

text \<open>Lines 429 to 448: the counters after a window.\<close>

definition count_misses :: "window \<Rightarrow> supervisor_state \<Rightarrow> supervisor_state" where
  "count_misses w s =
     (if xGot w = pdTRUE
      then (let s1 = (if ulReceivedBits w AND push_bit 0 1 \<noteq> 0
                      then s\<lparr>ulMissed1 := 0\<rparr>
                      else s\<lparr>ulMissed1 := ulMissed1 s + 1\<rparr>)
            in (if ulReceivedBits w AND push_bit 1 1 \<noteq> 0
                then s1\<lparr>ulMissed2 := 0\<rparr>
                else s1\<lparr>ulMissed2 := ulMissed2 s1 + 1\<rparr>))
      else s\<lparr>ulMissed1 := ulMissed1 s + 1, ulMissed2 := ulMissed2 s + 1\<rparr>)"

text \<open>Lines 451 to 459 and 460 to 467: the two restarts.\<close>

definition restart_worker1 :: "window \<Rightarrow> supervisor_state \<Rightarrow> supervisor_state \<times> wd_event list" where
  "restart_worker1 w s =
     (if ulMissed1 s \<ge> 2
      then (s\<lparr>xWorker1 := store_handle (created1 w) (xWorker1 s), ulMissed1 := 0\<rparr>,
            [PrintRestarting Worker1 (ulMissed1 s)]
            @ (case xWorker1 s of None \<Rightarrow> [] | Some h \<Rightarrow> [VTaskDelete Worker1 h])
            @ [XTaskCreate Worker1 (push_bit 0 1) 2])
      else (s, []))"

definition restart_worker2 :: "window \<Rightarrow> supervisor_state \<Rightarrow> supervisor_state \<times> wd_event list" where
  "restart_worker2 w s =
     (if ulMissed2 s \<ge> 2
      then (s\<lparr>xWorker2 := store_handle (created2 w) (xWorker2 s), ulMissed2 := 0\<rparr>,
            [PrintRestarting Worker2 (ulMissed2 s)]
            @ (case xWorker2 s of None \<Rightarrow> [] | Some h \<Rightarrow> [VTaskDelete Worker2 h])
            @ [XTaskCreate Worker2 (push_bit 1 1) 2])
      else (s, []))"

text \<open>One pass of the loop of \<open>vSupervisorTask\<close> (lines 421 to 468), and the loop.\<close>

definition vSupervisorTask_iteration ::
  "window \<Rightarrow> supervisor_state \<Rightarrow> supervisor_state \<times> wd_event list" where
  "vSupervisorTask_iteration w s =
     (case restart_worker1 w (count_misses w s) of (s1, ev1) \<Rightarrow>
      case restart_worker2 w s1 of (s2, ev2) \<Rightarrow> (s2, ev1 @ ev2))"

fun vSupervisorTask_run ::
  "window list \<Rightarrow> supervisor_state \<Rightarrow> supervisor_state \<times> wd_event list" where
  "vSupervisorTask_run [] s = (s, [])"
| "vSupervisorTask_run (w # ws) s =
     (case vSupervisorTask_iteration w s of (s1, ev) \<Rightarrow>
      case vSupervisorTask_run ws s1 of (s2, evs) \<Rightarrow> (s2, ev @ evs))"

text \<open>The view of one worker: its bit, its counter, its handle, its kernel calls.\<close>

definition heartbeat_bit :: "worker \<Rightarrow> 32 word" where
  "heartbeat_bit wk = (case wk of Worker1 \<Rightarrow> push_bit 0 1 | Worker2 \<Rightarrow> push_bit 1 1)"

definition missed :: "worker \<Rightarrow> supervisor_state \<Rightarrow> 32 word" where
  "missed wk s = (case wk of Worker1 \<Rightarrow> ulMissed1 s | Worker2 \<Rightarrow> ulMissed2 s)"

definition handle_of :: "worker \<Rightarrow> supervisor_state \<Rightarrow> TaskHandle_t" where
  "handle_of wk s = (case wk of Worker1 \<Rightarrow> xWorker1 s | Worker2 \<Rightarrow> xWorker2 s)"

text \<open>
  A worker's bit is absent from a window when the wait timed out or the bits received do
  not contain it.
\<close>

definition bit_absent :: "worker \<Rightarrow> window \<Rightarrow> bool" where
  "bit_absent wk w = (xGot w \<noteq> pdTRUE \<or> ulReceivedBits w AND heartbeat_bit wk = 0)"

fun kernel_call_on :: "worker \<Rightarrow> wd_event \<Rightarrow> bool" where
  "kernel_call_on wk (XTaskCreate wk' pvParameters uxPriority) = (wk' = wk)"
| "kernel_call_on wk (VTaskDelete wk' h) = (wk' = wk)"
| "kernel_call_on wk (PrintRestarting wk' n) = False"

definition kernel_calls :: "worker \<Rightarrow> wd_event list \<Rightarrow> wd_event list" where
  "kernel_calls wk evs = filter (kernel_call_on wk) evs"

fun is_create :: "wd_event \<Rightarrow> bool" where
  "is_create (XTaskCreate wk pvParameters uxPriority) = True"
| "is_create e = False"

section \<open>Properties of the priority updater\<close>

lemma priority_after_cases:
  "priority_after g t h =
     (if remaining1 g t \<le> remaining2 g t \<and> remaining1 g t \<le> remaining3 g t
      then (case h of task1Handle \<Rightarrow> 3 | task2Handle \<Rightarrow> 2 | task3Handle \<Rightarrow> 1)
      else if remaining2 g t \<le> remaining1 g t \<and> remaining2 g t \<le> remaining3 g t
      then (case h of task1Handle \<Rightarrow> 1 | task2Handle \<Rightarrow> 3 | task3Handle \<Rightarrow> 2)
      else (case h of task1Handle \<Rightarrow> 1 | task2Handle \<Rightarrow> 2 | task3Handle \<Rightarrow> 3))"
  by (cases h) (simp_all add: priority_after_def updatePriorities_def vTaskPrioritySet_def)

lemma uint_clamp:
  "uint (if d > (t::32 word) then d - t else 0) = max 0 (uint d - uint t)"
proof (cases "d > t")
  case True
  then have "uint t \<le> uint d" by (simp add: word_less_def)
  then have "uint (d - t) = uint d - uint t" by (simp add: uint_sub_lem [symmetric])
  with True show ?thesis by (simp add: word_less_def max_def)
next
  case False
  then show ?thesis by (simp add: word_less_def max_def not_less)
qed

lemma remaining_of_uint:
  "uint (remaining_of g now h) = max 0 (uint (deadline_of g h) - uint now)"
  unfolding remaining_of_def deadline_of_def remaining1_def remaining2_def remaining3_def
  by (cases h) (simp_all only: task_handle.case uint_clamp)

lemma remaining_of_overdue:
  "deadline_of g h \<le> now \<Longrightarrow> remaining_of g now h = 0"
  unfolding remaining_of_def deadline_of_def remaining1_def remaining2_def remaining3_def
  by (cases h) (auto simp: not_less)

text \<open>Priority 3 always goes to a task whose remaining time is minimal.\<close>

lemma top_priority_is_minimum:
  "priority_after g t h = 3 \<Longrightarrow> remaining_of g t h \<le> remaining_of g t h'"
  unfolding priority_after_cases remaining_of_def
  by (cases h; cases h') (auto split: if_splits)

text \<open>Among the tasks tied for the minimum, the one registered first gets priority 3.\<close>

lemma top_priority_tie_goes_to_first:
  "priority_after g t h = 3 \<Longrightarrow> remaining_of g t h' = remaining_of g t h
     \<Longrightarrow> registration_index h \<le> registration_index h'"
  unfolding priority_after_cases remaining_of_def registration_index_def
  by (cases h; cases h') (auto split: if_splits)

text \<open>
  The complete order is the deadline order in three of the six strict orderings: those in
  which the two tasks that are not the most urgent happen to stand as the branch taken
  hard-codes them.
\<close>

lemma full_order_in_three_orderings:
  assumes "remaining1 g t < remaining2 g t \<and> remaining2 g t < remaining3 g t
         \<or> remaining2 g t < remaining3 g t \<and> remaining3 g t < remaining1 g t
         \<or> remaining3 g t < remaining2 g t \<and> remaining2 g t < remaining1 g t"
    and "remaining_of g t h < remaining_of g t h'"
  shows "priority_after g t h' < priority_after g t h"
  using assms unfolding priority_after_cases remaining_of_def
  by (cases h; cases h') (auto split: if_splits)

lemma order_wrong_in_other_orderings:
  assumes "remaining1 g t < remaining3 g t \<and> remaining3 g t < remaining2 g t
         \<or> remaining2 g t < remaining1 g t \<and> remaining1 g t < remaining3 g t
         \<or> remaining3 g t < remaining1 g t \<and> remaining1 g t < remaining2 g t"
  shows "\<exists>h h'. remaining_of g t h < remaining_of g t h'
           \<and> priority_after g t h < priority_after g t h'"
proof -
  consider "remaining1 g t < remaining3 g t \<and> remaining3 g t < remaining2 g t"
    | "remaining2 g t < remaining1 g t \<and> remaining1 g t < remaining3 g t"
    | "remaining3 g t < remaining1 g t \<and> remaining1 g t < remaining2 g t"
    using assms by blast
  then show ?thesis
  proof cases
    case 1
    then have "remaining_of g t task3Handle < remaining_of g t task2Handle
        \<and> priority_after g t task3Handle < priority_after g t task2Handle"
      unfolding priority_after_cases remaining_of_def by auto
    then show ?thesis by blast
  next
    case 2
    then have "remaining_of g t task1Handle < remaining_of g t task3Handle
        \<and> priority_after g t task1Handle < priority_after g t task3Handle"
      unfolding priority_after_cases remaining_of_def by auto
    then show ?thesis by blast
  next
    case 3
    then have "remaining_of g t task1Handle < remaining_of g t task2Handle
        \<and> priority_after g t task1Handle < priority_after g t task2Handle"
      unfolding priority_after_cases remaining_of_def by auto
    then show ?thesis by blast
  qed
qed




text \<open>
  The deadline globals are initialised on lines 14 to 16 and never written, so every call
  of the program runs on \<open>initial_deadlines\<close>. Were they to hold other values, the two
  tasks that are not the most urgent would keep the ranks the branch hard-codes: with
  deadlines 500, 1500, 1000 at tick 0 the second task (remaining 1500) would be given
  priority 2 and the third (remaining 1000) priority 1.
\<close>

lemma updatePriorities_other_deadlines_second_and_third:
  "remaining_of \<lparr>deadline1 = 500, deadline2 = 1500, deadline3 = 1000\<rparr> 0 task1Handle = 500
   \<and> remaining_of \<lparr>deadline1 = 500, deadline2 = 1500, deadline3 = 1000\<rparr> 0 task2Handle = 1500
   \<and> remaining_of \<lparr>deadline1 = 500, deadline2 = 1500, deadline3 = 1000\<rparr> 0 task3Handle = 1000
   \<and> updatePriorities \<lparr>deadline1 = 500, deadline2 = 1500, deadline3 = 1000\<rparr> 0
       = [(task1Handle, 3), (task2Handle, 2), (task3Handle, 1)]"
  by (simp add: remaining_of_def updatePriorities_def remaining1_def remaining2_def
      remaining3_def)



text \<open>
  C8. For every current tick, the remaining time computed for each task is
  \<open>max 0 (deadline - now)\<close> on the unsigned values of the ticks, so it is never
  negative or wrapped around; once \<open>now\<close> is at or past a task's deadline its remaining
  time is 0, no other task has a smaller one, and the task that is given priority 3 has
  remaining time 0 as well.
\<close>

theorem remaining_is_clamped_difference:
  "uint (remaining_of g now h) = max 0 (uint (deadline_of g h) - uint now)
   \<and> (deadline_of g h \<le> now \<longrightarrow>
         remaining_of g now h = 0
         \<and> (\<forall>h'. remaining_of g now h \<le> remaining_of g now h')
         \<and> (\<forall>h'. priority_after g now h' = 3 \<longrightarrow> remaining_of g now h' = 0))"
proof -
  have "remaining_of g now h' = 0" if "deadline_of g h \<le> now" and "priority_after g now h' = 3"
    for h'
  proof -
    have "remaining_of g now h' \<le> remaining_of g now h"
      using that(2) by (rule top_priority_is_minimum)
    then show ?thesis using remaining_of_overdue [OF that(1)] by simp
  qed
  then show ?thesis
    by (simp add: remaining_of_uint remaining_of_overdue)
qed

theorem remaining_is_clamped_difference_witness:
  "deadline_of initial_deadlines task1Handle \<le> 700
   \<and> uint (remaining_of initial_deadlines 700 task1Handle) = 0
   \<and> remaining_of initial_deadlines 700 task1Handle = 0
   \<and> (\<forall>h'. remaining_of initial_deadlines 700 task1Handle \<le> remaining_of initial_deadlines 700 h')
   \<and> priority_after initial_deadlines 700 task1Handle = 3"
  using remaining_is_clamped_difference [of initial_deadlines 700 task1Handle]
  by (simp add: deadline_of_def initial_deadlines_def priority_after_cases remaining1_def)


text \<open>
  With other values in the deadline globals a tie between two tasks that are not the most
  urgent would follow the hard-coded ranks: with deadlines 1000, 1000, 500 at tick 0 the
  first task would be given priority 1 and the second priority 2.
\<close>

lemma updatePriorities_other_deadlines_tie:
  "remaining_of \<lparr>deadline1 = 1000, deadline2 = 1000, deadline3 = 500\<rparr> 0 task1Handle = 1000
   \<and> remaining_of \<lparr>deadline1 = 1000, deadline2 = 1000, deadline3 = 500\<rparr> 0 task2Handle = 1000
   \<and> remaining_of \<lparr>deadline1 = 1000, deadline2 = 1000, deadline3 = 500\<rparr> 0 task3Handle = 500
   \<and> updatePriorities \<lparr>deadline1 = 1000, deadline2 = 1000, deadline3 = 500\<rparr> 0
       = [(task1Handle, 1), (task2Handle, 2), (task3Handle, 3)]"
  by (simp add: remaining_of_def updatePriorities_def remaining1_def remaining2_def
      remaining3_def)




text \<open>
  C10. Every call issues exactly three priority writes, one for each handle in the order
  task1Handle, task2Handle, task3Handle, and the three priorities written are pairwise
  different and are exactly 1, 2 and 3; exactly one write carries priority 3.
\<close>

theorem updatePriorities_permutation:
  "map fst (updatePriorities g t) = [task1Handle, task2Handle, task3Handle]
   \<and> distinct (map snd (updatePriorities g t))
   \<and> set (map snd (updatePriorities g t)) = {1, 2, 3}
   \<and> length (filter (\<lambda>c. snd c = 3) (updatePriorities g t)) = 1"
  unfolding updatePriorities_def by auto



section \<open>Properties of the two-task scheduler\<close>

text \<open>
  One pass leaves the two records in deadline order and gives priority 3 to the first and
  2 to the second; records with equal deadlines keep their places.
\<close>

lemma vEDF_Scheduler_pass_orders:
  "next_deadline (fst (fst (vEDF_Scheduler_pass edfTasks)))
     \<le> next_deadline (snd (fst (vEDF_Scheduler_pass edfTasks)))
   \<and> snd (vEDF_Scheduler_pass edfTasks)
       = [(edf_handle (fst (fst (vEDF_Scheduler_pass edfTasks))), 3),
          (edf_handle (snd (fst (vEDF_Scheduler_pass edfTasks))), 2)]
   \<and> {fst (fst (vEDF_Scheduler_pass edfTasks)), snd (fst (vEDF_Scheduler_pass edfTasks))}
       = {fst edfTasks, snd edfTasks}"
  by (auto simp: vEDF_Scheduler_pass_def Let_def)

section \<open>Properties of the fault-tolerant pair\<close>

text \<open>
  What one pass of the Primary's loop leaves behind: the wake time advanced by one
  period, the fields it does not own untouched, and the outcome of the workload.
\<close>

lemma vFT_Primary_iteration_xNextWake:
  "fst (fst (vFT_Primary_iteration pdMS_TO_TICKS rnd now xNextWake task)) = xNextWake + period task"
  by (simp add: vFT_Primary_iteration_def vFT_Primary_release_def vFT_Primary_workload_def
      vFT_Primary_deadline_check_def split: prod.splits)

lemma vFT_Primary_iteration_frame:
  "period (snd (fst (vFT_Primary_iteration pdMS_TO_TICKS rnd now xNextWake task))) = period task
   \<and> deadline (snd (fst (vFT_Primary_iteration pdMS_TO_TICKS rnd now xNextWake task))) = deadline task
   \<and> backupActivations (snd (fst (vFT_Primary_iteration pdMS_TO_TICKS rnd now xNextWake task)))
       = backupActivations task"
  by (simp add: vFT_Primary_iteration_def vFT_Primary_release_def vFT_Primary_workload_def
      vFT_Primary_deadline_check_def split: prod.splits)

lemma vFT_Primary_nominal:
  "rnd mod 10 \<noteq> 0 \<Longrightarrow>
     primarySuccess (snd (fst (vFT_Primary_iteration pdMS_TO_TICKS rnd now xNextWake task))) = pdTRUE
     \<and> successCount (snd (fst (vFT_Primary_iteration pdMS_TO_TICKS rnd now xNextWake task)))
         = successCount task + 1"
  by (simp add: vFT_Primary_iteration_def vFT_Primary_release_def vFT_Primary_workload_def
      vFT_Primary_deadline_check_def split: prod.splits)

lemma vFT_Primary_overrun:
  "rnd mod 10 = 0 \<Longrightarrow>
     primarySuccess (snd (fst (vFT_Primary_iteration pdMS_TO_TICKS rnd now xNextWake task))) = pdFALSE
     \<and> successCount (snd (fst (vFT_Primary_iteration pdMS_TO_TICKS rnd now xNextWake task)))
         = successCount task"
  by (simp add: vFT_Primary_iteration_def vFT_Primary_release_def vFT_Primary_workload_def
      vFT_Primary_deadline_check_def split: prod.splits)

lemma vFT_Primary_iteration_starts_with_reset:
  "take 2 (snd (vFT_Primary_iteration pdMS_TO_TICKS rnd now xNextWake task))
     = [WritePrimarySuccess pdFALSE, TaskDelayUntil (period task)]"
  by (simp add: vFT_Primary_iteration_def vFT_Primary_release_def vFT_Primary_workload_def
      vFT_Primary_deadline_check_def split: prod.splits)

text \<open>
  The deadline check as line 305 writes it: the counter goes up by exactly 1 when the tick
  read after the workload is strictly greater than \<open>xNextWake - period + deadline\<close>, and
  stays otherwise, whether the workload succeeded or overran.
\<close>

lemma deadline_check_compares_with_line_305_threshold:
  "deadlineMisses (snd (fst (vFT_Primary_iteration pdMS_TO_TICKS rnd now xNextWake task)))
     = (if now > deadline_threshold (xNextWake + period task) task
        then deadlineMisses task + 1 else deadlineMisses task)
   \<and> length (filter (\<lambda>e. e = IncrementDeadlineMisses)
         (snd (vFT_Primary_iteration pdMS_TO_TICKS rnd now xNextWake task)))
     = (if now > deadline_threshold (xNextWake + period task) task then 1 else 0)"
  by (simp add: vFT_Primary_iteration_def vFT_Primary_release_def vFT_Primary_workload_def
      vFT_Primary_deadline_check_def deadline_threshold_def cycle_start_def pdTRUE_def pdFALSE_def
      split: prod.splits)

text \<open>
  The period starts at the release, the wake time \<open>vTaskDelayUntil\<close> leaves in
  \<open>xNextWake\<close>. A completion exactly at release plus \<open>deadline\<close> is counted: for JobA
  entered at tick 0 the release is at tick 500 and a completion at tick 1300 is a miss.
\<close>

lemma completion_at_release_plus_deadline_is_counted:
  "fst (fst (vFT_Primary_iteration ms_is_tick 1 1300 0 JobA)) + deadline JobA = 1300
   \<and> deadlineMisses (snd (fst (vFT_Primary_iteration ms_is_tick 1 1300 0 JobA)))
       = deadlineMisses JobA + 1"
  by (simp add: vFT_Primary_iteration_def vFT_Primary_release_def vFT_Primary_workload_def
      vFT_Primary_deadline_check_def pdTRUE_def pdFALSE_def
      JobA_def main_fault_tolerant_demo_def ms_is_tick_def)

text \<open>
  C2. Claim: \<open>deadlineMisses\<close> is incremented exactly when the Primary completes at or
  after period start plus \<open>deadline\<close>. The code counts misses that are none: line 305
  takes \<open>xNextWake - period\<close>, the wake time before the release, as the start, so its
  threshold lies one period early. For JobB (period 700, deadline 1000) entered at tick 0
  the release is at tick 700; the nominal workload completes at tick 1050, well before
  700 + 1000, succeeds, and is counted as a deadline miss and logged as a late success.
\<close>

theorem nominal_JobB_pass_is_counted_as_deadline_miss:
  "fst (fst (vFT_Primary_iteration ms_is_tick 1 1050 0 JobB)) = 700
   \<and> 1050 < fst (fst (vFT_Primary_iteration ms_is_tick 1 1050 0 JobB)) + deadline JobB
   \<and> primarySuccess (snd (fst (vFT_Primary_iteration ms_is_tick 1 1050 0 JobB))) = pdTRUE
   \<and> deadlineMisses (snd (fst (vFT_Primary_iteration ms_is_tick 1 1050 0 JobB)))
       = deadlineMisses JobB + 1
   \<and> Print (PrimaryLateSuccess 1050)
       \<in> set (snd (vFT_Primary_iteration ms_is_tick 1 1050 0 JobB))"
  by (simp add: vFT_Primary_iteration_def vFT_Primary_release_def vFT_Primary_workload_def
      vFT_Primary_deadline_check_def pdTRUE_def pdFALSE_def
      JobB_def main_fault_tolerant_demo_def ms_is_tick_def)

text \<open>The whole of that pass, state and events.\<close>

lemma JobB_nominal_cycle_counts_a_miss:
  "vFT_Primary_iteration ms_is_tick 1 1050 0 JobB =
     ((700, JobB\<lparr>primarySuccess := pdTRUE, successCount := 1, deadlineMisses := 1\<rparr>),
      [WritePrimarySuccess pdFALSE, TaskDelayUntil 700, Print PrimaryStarted, TaskDelay 350,
       WritePrimarySuccess pdTRUE, IncrementSuccessCount, Print PrimarySuccess,
       GetTickCount 1050, ReadPrimarySuccess pdTRUE, IncrementDeadlineMisses,
       Print (PrimaryLateSuccess 1050)])"
  by (simp add: vFT_Primary_iteration_def vFT_Primary_release_def vFT_Primary_workload_def
      vFT_Primary_deadline_check_def pdTRUE_def pdFALSE_def
      JobB_def main_fault_tolerant_demo_def ms_is_tick_def)

text \<open>
  C3. In every pass of the Backup's loop: if the flag read is not \<open>pdFALSE\<close>, the shared
  record is unchanged (so \<open>backupActivations\<close> is), and no delay follows the read, that
  is, no substitute workload runs; if the flag read is \<open>pdFALSE\<close>, \<open>backupActivations\<close> is
  incremented by exactly 1 and nothing else changes, and the substitute workload (a delay
  of a quarter period) follows the read. In both cases \<open>successCount\<close> is unchanged.
\<close>

theorem backup_check:
  "(primarySuccess task \<noteq> pdFALSE \<longrightarrow>
      fst (vFT_Backup_iteration pdMS_TO_TICKS task) = task
      \<and> filter is_delay (after_read (snd (vFT_Backup_iteration pdMS_TO_TICKS task))) = []
      \<and> IncrementBackupActivations \<notin> set (snd (vFT_Backup_iteration pdMS_TO_TICKS task)))
   \<and> (primarySuccess task = pdFALSE \<longrightarrow>
      fst (vFT_Backup_iteration pdMS_TO_TICKS task)
        = task\<lparr>backupActivations := backupActivations task + 1\<rparr>
      \<and> filter is_delay (after_read (snd (vFT_Backup_iteration pdMS_TO_TICKS task)))
        = [TaskDelay (pdMS_TO_TICKS (period task div 4))]
      \<and> length (filter (\<lambda>e. e = IncrementBackupActivations)
           (snd (vFT_Backup_iteration pdMS_TO_TICKS task))) = 1)
   \<and> successCount (fst (vFT_Backup_iteration pdMS_TO_TICKS task)) = successCount task
   \<and> IncrementSuccessCount \<notin> set (snd (vFT_Backup_iteration pdMS_TO_TICKS task))"
  by (simp add: vFT_Backup_iteration_def after_read_def pdFALSE_def)

text \<open>C3, at JobA as configured and at JobA with the flag cleared.\<close>

theorem backup_check_witness:
  "primarySuccess JobA \<noteq> pdFALSE
   \<and> fst (vFT_Backup_iteration ms_is_tick JobA) = JobA
   \<and> filter is_delay (after_read (snd (vFT_Backup_iteration ms_is_tick JobA))) = []
   \<and> primarySuccess (JobA\<lparr>primarySuccess := pdFALSE\<rparr>) = pdFALSE
   \<and> backupActivations (fst (vFT_Backup_iteration ms_is_tick (JobA\<lparr>primarySuccess := pdFALSE\<rparr>))) = 1
   \<and> filter is_delay (after_read (snd (vFT_Backup_iteration ms_is_tick (JobA\<lparr>primarySuccess := pdFALSE\<rparr>))))
       = [TaskDelay 125]
   \<and> successCount (fst (vFT_Backup_iteration ms_is_tick (JobA\<lparr>primarySuccess := pdFALSE\<rparr>))) = 0"
  using backup_check [of JobA ms_is_tick] backup_check [of "JobA\<lparr>primarySuccess := pdFALSE\<rparr>" ms_is_tick]
  by (simp add: JobA_def main_fault_tolerant_demo_def ms_is_tick_def pdTRUE_def pdFALSE_def)

text \<open>
  C7. Claim: the Primary clears the flag at the release of the period, not before the
  sleep that leads to it. In the code the first event of every pass is the write of
  \<open>pdFALSE\<close>, and the sleep to the release (\<open>vTaskDelayUntil\<close>) comes second; here for
  JobA entered at tick 0 with a nominal workload.
\<close>

theorem primary_resets_before_release_sleep:
  "snd (vFT_Primary_iteration ms_is_tick 1 750 0 JobA) =
     [WritePrimarySuccess pdFALSE, TaskDelayUntil 500, Print PrimaryStarted, TaskDelay 250,
      WritePrimarySuccess pdTRUE, IncrementSuccessCount, Print PrimarySuccess, GetTickCount 750]"
  by (simp add: vFT_Primary_iteration_def vFT_Primary_release_def vFT_Primary_workload_def
      vFT_Primary_deadline_check_def pdTRUE_def pdFALSE_def
      JobA_def main_fault_tolerant_demo_def ms_is_tick_def)


text \<open>
  A consequence of the early reset: at every point where the Primary blocks, in any
  number of passes and whatever the workloads do, the flag is \<open>pdFALSE\<close>.
\<close>

lemma outcome_when_blocked_append:
  "outcome_when_blocked v (xs @ ys)
     = outcome_when_blocked v xs @ outcome_when_blocked (last_outcome v xs) ys"
  by (induction v xs rule: outcome_when_blocked.induct) simp_all

lemma last_outcome_append:
  "last_outcome v (xs @ ys) = last_outcome (last_outcome v xs) ys"
  by (induction v xs rule: last_outcome.induct) simp_all

lemma vFT_Primary_iteration_blocked:
  "outcome_when_blocked v (snd (vFT_Primary_iteration pdMS_TO_TICKS rnd now xNextWake task))
     = [pdFALSE, pdFALSE]"
  by (simp add: vFT_Primary_iteration_def vFT_Primary_release_def vFT_Primary_workload_def
      vFT_Primary_deadline_check_def split: prod.splits)

lemma primary_blocks_only_with_outcome_failed:
  "set (outcome_when_blocked v (snd (vFT_Primary_run pdMS_TO_TICKS inputs xNextWake task)))
     \<subseteq> {pdFALSE}"
proof (induction inputs arbitrary: v xNextWake task)
  case Nil
  then show ?case by simp
next
  case (Cons input inputs)
  obtain x1 t1 ev where it:
    "vFT_Primary_iteration pdMS_TO_TICKS (fst input) (snd input) xNextWake task = ((x1, t1), ev)"
    by (metis prod.collapse)
  obtain s evs where rn: "vFT_Primary_run pdMS_TO_TICKS inputs x1 t1 = (s, evs)"
    by (metis prod.collapse)
  have a: "outcome_when_blocked v ev = [pdFALSE, pdFALSE]"
    using vFT_Primary_iteration_blocked [of v pdMS_TO_TICKS "fst input" "snd input" xNextWake task]
    by (simp add: it)
  have b: "set (outcome_when_blocked (last_outcome v ev) evs) \<subseteq> {pdFALSE}"
    using Cons.IH [of "last_outcome v ev" x1 t1] by (simp add: rn)
  show ?case
    using a b by (simp add: it rn outcome_when_blocked_append)
qed

text \<open>The Backup's reads are at least \<open>pdMS_TO_TICKS (deadline)\<close> ticks apart.\<close>

lemma vFT_Backup_check_times_lower:
  "c \<in> set (vFT_Backup_check_times pdMS_TO_TICKS task t seen)
     \<Longrightarrow> t + unat (pdMS_TO_TICKS (deadline task)) \<le> c"
proof (induction seen arbitrary: t)
  case Nil
  then show ?case by simp
next
  case (Cons v seen)
  have here: "sum_list (map blocked_ticks
      (before_read (snd (vFT_Backup_iteration pdMS_TO_TICKS (task\<lparr>primarySuccess := v\<rparr>)))))
      = unat (pdMS_TO_TICKS (deadline task))"
    by (simp add: vFT_Backup_iteration_def before_read_def)
  have total: "unat (pdMS_TO_TICKS (deadline task)) \<le> sum_list (map blocked_ticks
      (snd (vFT_Backup_iteration pdMS_TO_TICKS (task\<lparr>primarySuccess := v\<rparr>))))"
    by (simp add: vFT_Backup_iteration_def)
  from Cons.prems consider
      "c = t + unat (pdMS_TO_TICKS (deadline task))"
    | "c \<in> set (vFT_Backup_check_times pdMS_TO_TICKS task
         (t + sum_list (map blocked_ticks
            (snd (vFT_Backup_iteration pdMS_TO_TICKS (task\<lparr>primarySuccess := v\<rparr>))))) seen)"
    using here by auto
  then show ?case
  proof cases
    case 1
    then show ?thesis by simp
  next
    case 2
    from Cons.IH [OF 2] total show ?thesis by linarith
  qed
qed

lemma vFT_Backup_check_times_gap:
  "sorted_wrt (\<lambda>a b. a + unat (pdMS_TO_TICKS (deadline task)) \<le> b)
     (vFT_Backup_check_times pdMS_TO_TICKS task t seen)"
proof (induction seen arbitrary: t)
  case Nil
  then show ?case by simp
next
  case (Cons v seen)
  have here: "sum_list (map blocked_ticks
      (before_read (snd (vFT_Backup_iteration pdMS_TO_TICKS (task\<lparr>primarySuccess := v\<rparr>)))))
      = unat (pdMS_TO_TICKS (deadline task))"
    by (simp add: vFT_Backup_iteration_def before_read_def)
  have total: "unat (pdMS_TO_TICKS (deadline task)) \<le> sum_list (map blocked_ticks
      (snd (vFT_Backup_iteration pdMS_TO_TICKS (task\<lparr>primarySuccess := v\<rparr>))))"
    by (simp add: vFT_Backup_iteration_def)
  have "t + unat (pdMS_TO_TICKS (deadline task)) + unat (pdMS_TO_TICKS (deadline task)) \<le> c"
    if "c \<in> set (vFT_Backup_check_times pdMS_TO_TICKS task
         (t + sum_list (map blocked_ticks
            (snd (vFT_Backup_iteration pdMS_TO_TICKS (task\<lparr>primarySuccess := v\<rparr>))))) seen)" for c
    using vFT_Backup_check_times_lower [OF that] total by linarith
  then show ?case
    using Cons.IH here by simp
qed

lemma at_most_one_in_short_window:
  "sorted_wrt (\<lambda>a b. a + d \<le> b) (ts::nat list) \<Longrightarrow> hi \<le> lo + d
     \<Longrightarrow> length (filter (\<lambda>c. lo \<le> c \<and> c < hi) ts) \<le> Suc 0"
proof (induction ts)
  case Nil
  then show ?case by simp
next
  case (Cons x xs)
  show ?case
  proof (cases "lo \<le> x \<and> x < hi")
    case True
    have "filter (\<lambda>c. lo \<le> c \<and> c < hi) xs = []"
    proof -
      have "\<not> (lo \<le> y \<and> y < hi)" if "y \<in> set xs" for y
      proof -
        have "x + d \<le> y" using Cons.prems(1) that by simp
        with True Cons.prems(2) show ?thesis by auto
      qed
      then show ?thesis by (simp add: filter_empty_conv)
    qed
    with True show ?thesis by simp
  next
    case False
    with Cons show ?thesis by auto
  qed
qed


text \<open>
  C6 (as stated) fails: for JobA, with both tasks entering their loops at tick 0 and the
  Backup finding the flag cleared at every read, the Backup reads at ticks 800, 1725 and
  2650, and the Primary's period from tick 1000 to tick 1500 contains no read. Were the
  flag set at every read, the reads would be at ticks 800, 1600 and 2400, and the same
  period would contain none either.
\<close>

theorem backup_skips_a_primary_period:
  "vFT_Backup_check_times ms_is_tick JobA 0 [pdFALSE, pdFALSE, pdFALSE] = [800, 1725, 2650]
   \<and> vFT_Backup_check_times ms_is_tick JobA 0 [pdTRUE, pdTRUE, pdTRUE] = [800, 1600, 2400]
   \<and> primary_release_time JobA 0 2 = 1000
   \<and> primary_release_time JobA 0 3 = 1500
   \<and> reads_in_period ms_is_tick JobA 0 0 [pdFALSE, pdFALSE, pdFALSE] 2 \<noteq> 1
   \<and> reads_in_period ms_is_tick JobA 0 0 [pdTRUE, pdTRUE, pdTRUE] 2 \<noteq> 1"
  by (simp add: reads_in_period_def primary_release_time_def vFT_Backup_iteration_def
      before_read_def JobA_def main_fault_tolerant_demo_def ms_is_tick_def pdFALSE_def pdTRUE_def)

text \<open>
  C6 (as amended). Every pass of the Backup's loop reads the flag exactly once and every
  pass of the Primary's loop writes it twice (the reset, then the outcome); two successive
  reads of the Backup are at least \<open>pdMS_TO_TICKS (deadline)\<close> ticks apart, so when the
  period is no longer than that (500 against 800, 700 against 1000 for the configured
  jobs) a period of the Primary contains at most one read of the Backup.
\<close>

theorem backup_reads_at_most_once_per_period:
  "length (filter is_outcome_read (snd (vFT_Backup_iteration pdMS_TO_TICKS task))) = 1
   \<and> filter is_outcome_write (snd (vFT_Primary_iteration pdMS_TO_TICKS rnd now xNextWake task))
       = [WritePrimarySuccess pdFALSE, WritePrimarySuccess (if rnd mod 10 = 0 then pdFALSE else pdTRUE)]
   \<and> sorted_wrt (\<lambda>a b. a + unat (pdMS_TO_TICKS (deadline task)) \<le> b)
         (vFT_Backup_check_times pdMS_TO_TICKS task tB seen)
   \<and> (unat (period task) \<le> unat (pdMS_TO_TICKS (deadline task)) \<longrightarrow>
         reads_in_period pdMS_TO_TICKS task tP tB seen k \<le> 1)"
proof -
  have one_read: "length (filter is_outcome_read (snd (vFT_Backup_iteration pdMS_TO_TICKS task))) = 1"
    by (simp add: vFT_Backup_iteration_def)
  have writes: "filter is_outcome_write (snd (vFT_Primary_iteration pdMS_TO_TICKS rnd now xNextWake task))
       = [WritePrimarySuccess pdFALSE, WritePrimarySuccess (if rnd mod 10 = 0 then pdFALSE else pdTRUE)]"
    by (simp add: vFT_Primary_iteration_def vFT_Primary_release_def vFT_Primary_workload_def
        vFT_Primary_deadline_check_def split: prod.splits)
  have gap: "sorted_wrt (\<lambda>a b. a + unat (pdMS_TO_TICKS (deadline task)) \<le> b)
         (vFT_Backup_check_times pdMS_TO_TICKS task tB seen)"
    by (rule vFT_Backup_check_times_gap)
  have "reads_in_period pdMS_TO_TICKS task tP tB seen k \<le> 1"
    if "unat (period task) \<le> unat (pdMS_TO_TICKS (deadline task))"
  proof -
    have "primary_release_time task tP (Suc k)
        \<le> primary_release_time task tP k + unat (pdMS_TO_TICKS (deadline task))"
      using that by (simp add: primary_release_time_def)
    with gap show ?thesis
      unfolding reads_in_period_def using at_most_one_in_short_window by simp
  qed
  with one_read writes gap show ?thesis by blast
qed

text \<open>C6 (as amended), at JobA.\<close>

theorem backup_reads_at_most_once_per_period_witness:
  "unat (period JobA) \<le> unat (ms_is_tick (deadline JobA))
   \<and> reads_in_period ms_is_tick JobA 0 0 [pdFALSE, pdFALSE, pdFALSE] 1 \<le> 1
   \<and> length (filter is_outcome_read (snd (vFT_Backup_iteration ms_is_tick JobA))) = 1"
proof -
  have h: "unat (period JobA) \<le> unat (ms_is_tick (deadline JobA))"
    by (simp add: JobA_def main_fault_tolerant_demo_def ms_is_tick_def)
  show ?thesis
    using h backup_reads_at_most_once_per_period
      [of ms_is_tick JobA 1 750 0 0 "[pdFALSE, pdFALSE, pdFALSE]" 0 1]
    by simp
qed


section \<open>Properties of the watchdog supervisor\<close>

text \<open>The effect of one pass on one worker's counter, handle and kernel calls.\<close>

lemma two_le_one_word: "\<not> (2::32 word) \<le> 1"
  by (simp add: word_le_def)

lemma two_le_zero_word: "\<not> (2::32 word) \<le> 0"
  by (simp add: word_le_def)

lemma count_misses_missed:
  "missed wk (count_misses w s) = (if bit_absent wk w then missed wk s + 1 else 0)"
  by (cases wk) (simp_all add: missed_def count_misses_def bit_absent_def heartbeat_bit_def Let_def)

lemma count_misses_handle:
  "handle_of wk (count_misses w s) = handle_of wk s"
  by (cases wk) (simp_all add: handle_of_def count_misses_def Let_def)

lemma vSupervisorTask_iteration_missed:
  "missed wk (fst (vSupervisorTask_iteration w s))
     = (if 2 \<le> missed wk (count_misses w s) then 0 else missed wk (count_misses w s))"
  by (cases wk)
     (simp_all add: missed_def vSupervisorTask_iteration_def restart_worker1_def
       restart_worker2_def split: prod.splits)

lemma vSupervisorTask_iteration_kernel_calls:
  "kernel_calls wk (snd (vSupervisorTask_iteration w s))
     = (if 2 \<le> missed wk (count_misses w s)
        then (case handle_of wk s of None \<Rightarrow> [] | Some h \<Rightarrow> [VTaskDelete wk h])
             @ [XTaskCreate wk (heartbeat_bit wk) 2]
        else [])"
  by (cases wk)
     (auto simp add: missed_def handle_of_def heartbeat_bit_def kernel_calls_def
       vSupervisorTask_iteration_def restart_worker1_def restart_worker2_def
       count_misses_handle [of Worker1, unfolded handle_of_def, simplified]
       count_misses_handle [of Worker2, unfolded handle_of_def, simplified]
       split: prod.splits option.splits)

lemma vSupervisorTask_iteration_handle_kept:
  "\<not> 2 \<le> missed wk (count_misses w s)
     \<Longrightarrow> handle_of wk (fst (vSupervisorTask_iteration w s)) = handle_of wk s"
  by (cases wk)
     (auto simp add: missed_def handle_of_def
       vSupervisorTask_iteration_def restart_worker1_def restart_worker2_def
       count_misses_handle [of Worker1, unfolded handle_of_def, simplified]
       count_misses_handle [of Worker2, unfolded handle_of_def, simplified]
       split: prod.splits option.splits)

lemma vSupervisorTask_run_Cons:
  "vSupervisorTask_run (w # ws) s =
     (fst (vSupervisorTask_run ws (fst (vSupervisorTask_iteration w s))),
      snd (vSupervisorTask_iteration w s)
      @ snd (vSupervisorTask_run ws (fst (vSupervisorTask_iteration w s))))"
  by (simp split: prod.splits)

lemma vSupervisorTask_run_two:
  "vSupervisorTask_run [w1, w2] s =
     (fst (vSupervisorTask_iteration w2 (fst (vSupervisorTask_iteration w1 s))),
      snd (vSupervisorTask_iteration w1 s)
      @ snd (vSupervisorTask_iteration w2 (fst (vSupervisorTask_iteration w1 s))))"
  by (simp split: prod.splits)

lemma kernel_calls_append:
  "kernel_calls wk (xs @ ys) = kernel_calls wk xs @ kernel_calls wk ys"
  by (simp add: kernel_calls_def)

text \<open>
  C4. For each worker whose counter is 0: two successive windows without its bit (by
  timeout or by bits that do not contain it) make the supervisor delete the worker's task,
  if its handle is not \<open>NULL\<close>, and create it again with the same bit, once, and leave the
  counter at 0; one window without the bit followed by one with it causes no kernel call
  for the worker and leaves the counter at 0; and a window that times out increments both
  counters.
\<close>

theorem two_missed_windows_restart_once:
  "(missed wk s = 0 \<and> bit_absent wk w1 \<and> bit_absent wk w2 \<longrightarrow>
      kernel_calls wk (snd (vSupervisorTask_run [w1, w2] s))
        = (case handle_of wk s of None \<Rightarrow> [] | Some h \<Rightarrow> [VTaskDelete wk h])
          @ [XTaskCreate wk (heartbeat_bit wk) 2]
      \<and> missed wk (fst (vSupervisorTask_run [w1, w2] s)) = 0)
   \<and> (missed wk s = 0 \<and> bit_absent wk w1 \<and> \<not> bit_absent wk w2 \<longrightarrow>
      kernel_calls wk (snd (vSupervisorTask_run [w1, w2] s)) = []
      \<and> missed wk (fst (vSupervisorTask_run [w1, w2] s)) = 0)
   \<and> (xGot w1 \<noteq> pdTRUE \<longrightarrow>
      ulMissed1 (count_misses w1 s) = ulMissed1 s + 1
      \<and> ulMissed2 (count_misses w1 s) = ulMissed2 s + 1)"
proof -
  have a: "kernel_calls wk (snd (vSupervisorTask_run [w1, w2] s))
        = (case handle_of wk s of None \<Rightarrow> [] | Some h \<Rightarrow> [VTaskDelete wk h])
          @ [XTaskCreate wk (heartbeat_bit wk) 2]
      \<and> missed wk (fst (vSupervisorTask_run [w1, w2] s)) = 0"
    if "missed wk s = 0" "bit_absent wk w1" "bit_absent wk w2"
  proof -
    have m1: "missed wk (count_misses w1 s) = 1"
      using that by (simp add: count_misses_missed)
    have s1: "missed wk (fst (vSupervisorTask_iteration w1 s)) = 1"
      by (simp add: vSupervisorTask_iteration_missed m1 two_le_one_word)
    have h1: "handle_of wk (fst (vSupervisorTask_iteration w1 s)) = handle_of wk s"
      by (rule vSupervisorTask_iteration_handle_kept) (simp add: m1 two_le_one_word)
    have m2: "missed wk (count_misses w2 (fst (vSupervisorTask_iteration w1 s))) = 2"
      using that by (simp add: count_misses_missed s1)
    show ?thesis
      unfolding vSupervisorTask_run_two fst_conv snd_conv kernel_calls_append
      by (simp add: vSupervisorTask_iteration_kernel_calls vSupervisorTask_iteration_missed m1 m2 h1 two_le_one_word)
  qed
  have b: "kernel_calls wk (snd (vSupervisorTask_run [w1, w2] s)) = []
      \<and> missed wk (fst (vSupervisorTask_run [w1, w2] s)) = 0"
    if "missed wk s = 0" "bit_absent wk w1" "\<not> bit_absent wk w2"
  proof -
    have m1: "missed wk (count_misses w1 s) = 1"
      using that by (simp add: count_misses_missed)
    have m2: "missed wk (count_misses w2 (fst (vSupervisorTask_iteration w1 s))) = 0"
      using that by (simp add: count_misses_missed)
    show ?thesis
      unfolding vSupervisorTask_run_two fst_conv snd_conv kernel_calls_append
      by (simp add: vSupervisorTask_iteration_kernel_calls vSupervisorTask_iteration_missed m1 m2 two_le_one_word two_le_zero_word)
  qed
  have c: "ulMissed1 (count_misses w1 s) = ulMissed1 s + 1
      \<and> ulMissed2 (count_misses w1 s) = ulMissed2 s + 1" if "xGot w1 \<noteq> pdTRUE"
    using that by (simp add: count_misses_def)
  from a b c show ?thesis by blast
qed


text \<open>
  C4, for the second worker: a timeout followed by a window with only the first worker's
  bit restarts it once; a timeout followed by a window with both bits does not.
\<close>

theorem two_missed_windows_restart_once_witness:
  "missed Worker2 (supervisor_entry (Some 10) (Some 11)) = 0
   \<and> bit_absent Worker2 \<lparr>xGot = pdFALSE, ulReceivedBits = 0, created1 = Some 12, created2 = Some 13\<rparr>
   \<and> bit_absent Worker2 \<lparr>xGot = pdTRUE, ulReceivedBits = 1, created1 = Some 14, created2 = Some 15\<rparr>
   \<and> \<not> bit_absent Worker2 \<lparr>xGot = pdTRUE, ulReceivedBits = 3, created1 = Some 16, created2 = Some 17\<rparr>
   \<and> xGot \<lparr>xGot = pdFALSE, ulReceivedBits = 0, created1 = Some 12, created2 = Some 13\<rparr> \<noteq> pdTRUE
   \<and> kernel_calls Worker2 (snd (vSupervisorTask_run
         [\<lparr>xGot = pdFALSE, ulReceivedBits = 0, created1 = Some 12, created2 = Some 13\<rparr>,
          \<lparr>xGot = pdTRUE, ulReceivedBits = 1, created1 = Some 14, created2 = Some 15\<rparr>]
         (supervisor_entry (Some 10) (Some 11))))
       = [VTaskDelete Worker2 11, XTaskCreate Worker2 2 2]
   \<and> missed Worker2 (fst (vSupervisorTask_run
         [\<lparr>xGot = pdFALSE, ulReceivedBits = 0, created1 = Some 12, created2 = Some 13\<rparr>,
          \<lparr>xGot = pdTRUE, ulReceivedBits = 1, created1 = Some 14, created2 = Some 15\<rparr>]
         (supervisor_entry (Some 10) (Some 11)))) = 0
   \<and> kernel_calls Worker2 (snd (vSupervisorTask_run
         [\<lparr>xGot = pdFALSE, ulReceivedBits = 0, created1 = Some 12, created2 = Some 13\<rparr>,
          \<lparr>xGot = pdTRUE, ulReceivedBits = 3, created1 = Some 16, created2 = Some 17\<rparr>]
         (supervisor_entry (Some 10) (Some 11)))) = []
   \<and> missed Worker2 (fst (vSupervisorTask_run
         [\<lparr>xGot = pdFALSE, ulReceivedBits = 0, created1 = Some 12, created2 = Some 13\<rparr>,
          \<lparr>xGot = pdTRUE, ulReceivedBits = 3, created1 = Some 16, created2 = Some 17\<rparr>]
         (supervisor_entry (Some 10) (Some 11)))) = 0
   \<and> ulMissed1 (count_misses
         \<lparr>xGot = pdFALSE, ulReceivedBits = 0, created1 = Some 12, created2 = Some 13\<rparr>
         (supervisor_entry (Some 10) (Some 11))) = 1
   \<and> ulMissed2 (count_misses
         \<lparr>xGot = pdFALSE, ulReceivedBits = 0, created1 = Some 12, created2 = Some 13\<rparr>
         (supervisor_entry (Some 10) (Some 11))) = 1"
proof -
  have h0: "missed Worker2 (supervisor_entry (Some 10) (Some 11)) = 0"
    by (simp add: missed_def supervisor_entry_def)
  have h1: "bit_absent Worker2 \<lparr>xGot = pdFALSE, ulReceivedBits = 0, created1 = Some 12, created2 = Some 13\<rparr>"
    by (simp add: bit_absent_def pdFALSE_def pdTRUE_def)
  have h2: "bit_absent Worker2 \<lparr>xGot = pdTRUE, ulReceivedBits = 1, created1 = Some 14, created2 = Some 15\<rparr>"
    by (simp add: bit_absent_def heartbeat_bit_def)
  have h3: "\<not> bit_absent Worker2 \<lparr>xGot = pdTRUE, ulReceivedBits = 3, created1 = Some 16, created2 = Some 17\<rparr>"
    by (simp add: bit_absent_def heartbeat_bit_def)
  have h4: "xGot \<lparr>xGot = pdFALSE, ulReceivedBits = 0, created1 = Some 12, created2 = Some 13\<rparr> \<noteq> pdTRUE"
    by (simp add: pdFALSE_def pdTRUE_def)
  have hb: "heartbeat_bit Worker2 = 2" "handle_of Worker2 (supervisor_entry (Some 10) (Some 11)) = Some 11"
    "ulMissed1 (supervisor_entry (Some 10) (Some 11)) = 0"
    "ulMissed2 (supervisor_entry (Some 10) (Some 11)) = 0"
    by (simp_all add: heartbeat_bit_def handle_of_def supervisor_entry_def)
  show ?thesis
    using h0 h1 h2 h3 h4
      two_missed_windows_restart_once [of Worker2 "supervisor_entry (Some 10) (Some 11)"
        "\<lparr>xGot = pdFALSE, ulReceivedBits = 0, created1 = Some 12, created2 = Some 13\<rparr>"
        "\<lparr>xGot = pdTRUE, ulReceivedBits = 1, created1 = Some 14, created2 = Some 15\<rparr>"]
      two_missed_windows_restart_once [of Worker2 "supervisor_entry (Some 10) (Some 11)"
        "\<lparr>xGot = pdFALSE, ulReceivedBits = 0, created1 = Some 12, created2 = Some 13\<rparr>"
        "\<lparr>xGot = pdTRUE, ulReceivedBits = 3, created1 = Some 16, created2 = Some 17\<rparr>"]
    by (simp only: hb simp_thms option.case append.simps HOL.implies_True_equals)
      (simp add: hb)
qed

text \<open>The bound on a counter is kept by every pass.\<close>

lemma vSupervisorTask_iteration_keeps_bound:
  assumes "missed wk s \<in> {0, 1}"
  shows "missed wk (fst (vSupervisorTask_iteration w s)) \<in> {0, 1}"
proof -
  from assms consider "missed wk s = 0" | "missed wk s = 1" by auto
  then show ?thesis
  proof cases
    case 1
    then show ?thesis
      by (simp add: vSupervisorTask_iteration_missed count_misses_missed two_le_one_word two_le_zero_word)
  next
    case 2
    then show ?thesis
      by (simp add: vSupervisorTask_iteration_missed count_misses_missed two_le_one_word two_le_zero_word)
  qed
qed

lemma vSupervisorTask_run_keeps_bound:
  "missed wk s \<in> {0, 1} \<Longrightarrow> missed wk (fst (vSupervisorTask_run ws s)) \<in> {0, 1}"
proof (induction ws arbitrary: s)
  case Nil
  then show ?case by simp
next
  case (Cons w ws)
  have "missed wk (fst (vSupervisorTask_iteration w s)) \<in> {0, 1}"
    using Cons.prems by (rule vSupervisorTask_iteration_keeps_bound)
  then have "missed wk (fst (vSupervisorTask_run ws (fst (vSupervisorTask_iteration w s)))) \<in> {0, 1}"
    by (rule Cons.IH)
  then show ?case by (simp only: vSupervisorTask_run_Cons fst_conv)
qed

lemma vSupervisorTask_iteration_creates:
  "set (filter is_create (snd (vSupervisorTask_iteration w s))) \<subseteq> set main_watchdog_demo"
  by (auto simp: vSupervisorTask_iteration_def restart_worker1_def restart_worker2_def
      main_watchdog_demo_def split: prod.splits option.splits if_splits)

lemma vSupervisorTask_run_creates:
  "set (filter is_create (snd (vSupervisorTask_run ws s))) \<subseteq> set main_watchdog_demo"
proof (induction ws arbitrary: s)
  case Nil
  then show ?case by simp
next
  case (Cons w ws)
  have a: "set (filter is_create (snd (vSupervisorTask_iteration w s))) \<subseteq> set main_watchdog_demo"
    by (rule vSupervisorTask_iteration_creates)
  have b: "set (filter is_create (snd (vSupervisorTask_run ws (fst (vSupervisorTask_iteration w s)))))
      \<subseteq> set main_watchdog_demo"
    by (rule Cons.IH)
  show ?case using a b by (simp only: vSupervisorTask_run_Cons snd_conv filter_append set_append Un_subset_iff)
qed

text \<open>
  C5. After any number of passes of the supervisor's loop, started with both counters at
  0, each counter is 0 or 1, and every task creation the supervisor has issued is one of
  the two creations of \<open>main_watchdog_demo\<close>: the first worker with bit \<open>1 << 0\<close>, the second
  with bit \<open>1 << 1\<close>.
\<close>

theorem miss_counters_stay_below_two:
  "ulMissed1 (fst (vSupervisorTask_run ws (supervisor_entry h1 h2))) \<in> {0, 1}
   \<and> ulMissed2 (fst (vSupervisorTask_run ws (supervisor_entry h1 h2))) \<in> {0, 1}
   \<and> set (filter is_create (snd (vSupervisorTask_run ws (supervisor_entry h1 h2))))
       \<subseteq> {XTaskCreate Worker1 (push_bit 0 1) 2, XTaskCreate Worker2 (push_bit 1 1) 2}
   \<and> set main_watchdog_demo
       = {XTaskCreate Worker1 (push_bit 0 1) 2, XTaskCreate Worker2 (push_bit 1 1) 2}"
proof -
  have "missed wk (fst (vSupervisorTask_run ws (supervisor_entry h1 h2))) \<in> {0, 1}" for wk
    by (rule vSupervisorTask_run_keeps_bound) (cases wk; simp add: missed_def supervisor_entry_def)
  from this [of Worker1] this [of Worker2] vSupervisorTask_run_creates [of ws "supervisor_entry h1 h2"]
  show ?thesis by (simp add: missed_def main_watchdog_demo_def)
qed


end
